theory Spec2Isabelle
  imports Main "HOL-Library.Word"
begin

unbundle bit_operations_syntax

section \<open>The public header \<open>core/zerotier.h\<close>\<close>

subsection \<open>Wire-level and MTU constants\<close>

text \<open>The \<open>#define\<close>s at the top of the header, with the values written there.\<close>

definition ZT_DEFAULT_PORT :: nat where
  "ZT_DEFAULT_PORT = 9993"

definition ZT_MIN_MTU :: nat where
  "ZT_MIN_MTU = 1280"

definition ZT_MAX_MTU :: nat where
  "ZT_MAX_MTU = 10000"

definition ZT_MIN_UDP_MTU :: nat where
  "ZT_MIN_UDP_MTU = 1400"

definition ZT_DEFAULT_UDP_MTU :: nat where
  "ZT_DEFAULT_UDP_MTU = 1432"

definition ZT_MAX_UDP_PHYSPAYLOAD :: nat where
  "ZT_MAX_UDP_PHYSPAYLOAD = 10100"

definition ZT_MAX_UDP_HEADROOM :: nat where
  "ZT_MAX_UDP_HEADROOM = 224"

definition ZT_MAX_UDP_MTU :: nat where
  "ZT_MAX_UDP_MTU = ZT_MAX_UDP_PHYSPAYLOAD + ZT_MAX_UDP_HEADROOM"

subsection \<open>Result codes\<close>

text \<open>\<open>enum ZT_ResultCode\<close>; \<open>ZT_ResultCode_value\<close> gives each enumerator the integer the
  header assigns to it, as a 32-bit C \<open>int\<close>.\<close>

datatype ZT_ResultCode =
    ZT_RESULT_OK
  | ZT_RESULT_FATAL_ERROR_OUT_OF_MEMORY
  | ZT_RESULT_FATAL_ERROR_DATA_STORE_FAILED
  | ZT_RESULT_FATAL_ERROR_INTERNAL
  | ZT_RESULT_ERROR_NETWORK_NOT_FOUND
  | ZT_RESULT_ERROR_UNSUPPORTED_OPERATION
  | ZT_RESULT_ERROR_BAD_PARAMETER
  | ZT_RESULT_ERROR_INVALID_CREDENTIAL
  | ZT_RESULT_ERROR_COLLIDING_OBJECT
  | ZT_RESULT_ERROR_INTERNAL

fun ZT_ResultCode_value :: "ZT_ResultCode \<Rightarrow> 32 word" where
  "ZT_ResultCode_value ZT_RESULT_OK = 0"
| "ZT_ResultCode_value ZT_RESULT_FATAL_ERROR_OUT_OF_MEMORY = 100"
| "ZT_ResultCode_value ZT_RESULT_FATAL_ERROR_DATA_STORE_FAILED = 101"
| "ZT_ResultCode_value ZT_RESULT_FATAL_ERROR_INTERNAL = 102"
| "ZT_ResultCode_value ZT_RESULT_ERROR_NETWORK_NOT_FOUND = 1000"
| "ZT_ResultCode_value ZT_RESULT_ERROR_UNSUPPORTED_OPERATION = 1001"
| "ZT_ResultCode_value ZT_RESULT_ERROR_BAD_PARAMETER = 1002"
| "ZT_ResultCode_value ZT_RESULT_ERROR_INVALID_CREDENTIAL = 1003"
| "ZT_ResultCode_value ZT_RESULT_ERROR_COLLIDING_OBJECT = 1004"
| "ZT_ResultCode_value ZT_RESULT_ERROR_INTERNAL = 1005"

text \<open>The macro \<open>ZT_ResultCode_isFatal(x)\<close>:
  \<^verbatim>\<open>((((int)(x)) >= 100)&&(((int)(x)) < 1000))\<close>.
  The cast to \<open>int\<close> makes both comparisons signed.\<close>

definition ZT_ResultCode_isFatal :: "32 word \<Rightarrow> bool" where
  "ZT_ResultCode_isFatal x \<longleftrightarrow> word_sle 100 x \<and> word_sless x 1000"

subsection \<open>Rules table entries\<close>

text \<open>\<open>enum ZT_VirtualNetworkRuleType\<close>, every enumerator of the header in its order.\<close>

datatype ZT_VirtualNetworkRuleType =
    ZT_NETWORK_RULE_ACTION_DROP
  | ZT_NETWORK_RULE_ACTION_ACCEPT
  | ZT_NETWORK_RULE_ACTION_TEE
  | ZT_NETWORK_RULE_ACTION_WATCH
  | ZT_NETWORK_RULE_ACTION_REDIRECT
  | ZT_NETWORK_RULE_ACTION_BREAK
  | ZT_NETWORK_RULE_ACTION_PRIORITY
  | ZT_NETWORK_RULE_ACTION__MAX_ID
  | ZT_NETWORK_RULE_MATCH_SOURCE_ZEROTIER_ADDRESS
  | ZT_NETWORK_RULE_MATCH_DEST_ZEROTIER_ADDRESS
  | ZT_NETWORK_RULE_MATCH_VLAN_ID
  | ZT_NETWORK_RULE_MATCH_VLAN_PCP
  | ZT_NETWORK_RULE_MATCH_VLAN_DEI
  | ZT_NETWORK_RULE_MATCH_MAC_SOURCE
  | ZT_NETWORK_RULE_MATCH_MAC_DEST
  | ZT_NETWORK_RULE_MATCH_IPV4_SOURCE
  | ZT_NETWORK_RULE_MATCH_IPV4_DEST
  | ZT_NETWORK_RULE_MATCH_IPV6_SOURCE
  | ZT_NETWORK_RULE_MATCH_IPV6_DEST
  | ZT_NETWORK_RULE_MATCH_IP_TOS
  | ZT_NETWORK_RULE_MATCH_IP_PROTOCOL
  | ZT_NETWORK_RULE_MATCH_ETHERTYPE
  | ZT_NETWORK_RULE_MATCH_ICMP
  | ZT_NETWORK_RULE_MATCH_IP_SOURCE_PORT_RANGE
  | ZT_NETWORK_RULE_MATCH_IP_DEST_PORT_RANGE
  | ZT_NETWORK_RULE_MATCH_CHARACTERISTICS
  | ZT_NETWORK_RULE_MATCH_FRAME_SIZE_RANGE
  | ZT_NETWORK_RULE_MATCH_RANDOM
  | ZT_NETWORK_RULE_MATCH_TAGS_DIFFERENCE
  | ZT_NETWORK_RULE_MATCH_TAGS_BITWISE_AND
  | ZT_NETWORK_RULE_MATCH_TAGS_BITWISE_OR
  | ZT_NETWORK_RULE_MATCH_TAGS_BITWISE_XOR
  | ZT_NETWORK_RULE_MATCH_TAGS_EQUAL
  | ZT_NETWORK_RULE_MATCH_TAG_SENDER
  | ZT_NETWORK_RULE_MATCH_TAG_RECEIVER
  | ZT_NETWORK_RULE_MATCH_INTEGER_RANGE
  | ZT_NETWORK_RULE_MATCH__MAX_ID

text \<open>The integer the header assigns to each enumerator.\<close>

fun ZT_VirtualNetworkRuleType_value :: "ZT_VirtualNetworkRuleType \<Rightarrow> nat" where
  "ZT_VirtualNetworkRuleType_value ZT_NETWORK_RULE_ACTION_DROP = 0"
| "ZT_VirtualNetworkRuleType_value ZT_NETWORK_RULE_ACTION_ACCEPT = 1"
| "ZT_VirtualNetworkRuleType_value ZT_NETWORK_RULE_ACTION_TEE = 2"
| "ZT_VirtualNetworkRuleType_value ZT_NETWORK_RULE_ACTION_WATCH = 3"
| "ZT_VirtualNetworkRuleType_value ZT_NETWORK_RULE_ACTION_REDIRECT = 4"
| "ZT_VirtualNetworkRuleType_value ZT_NETWORK_RULE_ACTION_BREAK = 5"
| "ZT_VirtualNetworkRuleType_value ZT_NETWORK_RULE_ACTION_PRIORITY = 6"
| "ZT_VirtualNetworkRuleType_value ZT_NETWORK_RULE_ACTION__MAX_ID = 15"
| "ZT_VirtualNetworkRuleType_value ZT_NETWORK_RULE_MATCH_SOURCE_ZEROTIER_ADDRESS = 24"
| "ZT_VirtualNetworkRuleType_value ZT_NETWORK_RULE_MATCH_DEST_ZEROTIER_ADDRESS = 25"
| "ZT_VirtualNetworkRuleType_value ZT_NETWORK_RULE_MATCH_VLAN_ID = 26"
| "ZT_VirtualNetworkRuleType_value ZT_NETWORK_RULE_MATCH_VLAN_PCP = 27"
| "ZT_VirtualNetworkRuleType_value ZT_NETWORK_RULE_MATCH_VLAN_DEI = 28"
| "ZT_VirtualNetworkRuleType_value ZT_NETWORK_RULE_MATCH_MAC_SOURCE = 29"
| "ZT_VirtualNetworkRuleType_value ZT_NETWORK_RULE_MATCH_MAC_DEST = 30"
| "ZT_VirtualNetworkRuleType_value ZT_NETWORK_RULE_MATCH_IPV4_SOURCE = 31"
| "ZT_VirtualNetworkRuleType_value ZT_NETWORK_RULE_MATCH_IPV4_DEST = 32"
| "ZT_VirtualNetworkRuleType_value ZT_NETWORK_RULE_MATCH_IPV6_SOURCE = 33"
| "ZT_VirtualNetworkRuleType_value ZT_NETWORK_RULE_MATCH_IPV6_DEST = 34"
| "ZT_VirtualNetworkRuleType_value ZT_NETWORK_RULE_MATCH_IP_TOS = 35"
| "ZT_VirtualNetworkRuleType_value ZT_NETWORK_RULE_MATCH_IP_PROTOCOL = 36"
| "ZT_VirtualNetworkRuleType_value ZT_NETWORK_RULE_MATCH_ETHERTYPE = 37"
| "ZT_VirtualNetworkRuleType_value ZT_NETWORK_RULE_MATCH_ICMP = 38"
| "ZT_VirtualNetworkRuleType_value ZT_NETWORK_RULE_MATCH_IP_SOURCE_PORT_RANGE = 39"
| "ZT_VirtualNetworkRuleType_value ZT_NETWORK_RULE_MATCH_IP_DEST_PORT_RANGE = 40"
| "ZT_VirtualNetworkRuleType_value ZT_NETWORK_RULE_MATCH_CHARACTERISTICS = 41"
| "ZT_VirtualNetworkRuleType_value ZT_NETWORK_RULE_MATCH_FRAME_SIZE_RANGE = 42"
| "ZT_VirtualNetworkRuleType_value ZT_NETWORK_RULE_MATCH_RANDOM = 43"
| "ZT_VirtualNetworkRuleType_value ZT_NETWORK_RULE_MATCH_TAGS_DIFFERENCE = 44"
| "ZT_VirtualNetworkRuleType_value ZT_NETWORK_RULE_MATCH_TAGS_BITWISE_AND = 45"
| "ZT_VirtualNetworkRuleType_value ZT_NETWORK_RULE_MATCH_TAGS_BITWISE_OR = 46"
| "ZT_VirtualNetworkRuleType_value ZT_NETWORK_RULE_MATCH_TAGS_BITWISE_XOR = 47"
| "ZT_VirtualNetworkRuleType_value ZT_NETWORK_RULE_MATCH_TAGS_EQUAL = 48"
| "ZT_VirtualNetworkRuleType_value ZT_NETWORK_RULE_MATCH_TAG_SENDER = 49"
| "ZT_VirtualNetworkRuleType_value ZT_NETWORK_RULE_MATCH_TAG_RECEIVER = 50"
| "ZT_VirtualNetworkRuleType_value ZT_NETWORK_RULE_MATCH_INTEGER_RANGE = 51"
| "ZT_VirtualNetworkRuleType_value ZT_NETWORK_RULE_MATCH__MAX_ID = 63"

text \<open>Whether the header names an enumerator \<open>..._ACTION_...\<close> or \<open>..._MATCH_...\<close>.\<close>

datatype rule_kind = ACTION | MATCH

fun ZT_VirtualNetworkRuleType_kind :: "ZT_VirtualNetworkRuleType \<Rightarrow> rule_kind" where
  "ZT_VirtualNetworkRuleType_kind ZT_NETWORK_RULE_ACTION_DROP = ACTION"
| "ZT_VirtualNetworkRuleType_kind ZT_NETWORK_RULE_ACTION_ACCEPT = ACTION"
| "ZT_VirtualNetworkRuleType_kind ZT_NETWORK_RULE_ACTION_TEE = ACTION"
| "ZT_VirtualNetworkRuleType_kind ZT_NETWORK_RULE_ACTION_WATCH = ACTION"
| "ZT_VirtualNetworkRuleType_kind ZT_NETWORK_RULE_ACTION_REDIRECT = ACTION"
| "ZT_VirtualNetworkRuleType_kind ZT_NETWORK_RULE_ACTION_BREAK = ACTION"
| "ZT_VirtualNetworkRuleType_kind ZT_NETWORK_RULE_ACTION_PRIORITY = ACTION"
| "ZT_VirtualNetworkRuleType_kind ZT_NETWORK_RULE_ACTION__MAX_ID = ACTION"
| "ZT_VirtualNetworkRuleType_kind _ = MATCH"


definition ZT_rule_type :: "8 word \<Rightarrow> 8 word" where
  "ZT_rule_type t = t AND 0x3f"

definition ZT_rule_NOT :: "8 word \<Rightarrow> bool" where
  "ZT_rule_NOT t \<longleftrightarrow> t AND 0x80 \<noteq> 0"

definition ZT_rule_OR :: "8 word \<Rightarrow> bool" where
  "ZT_rule_OR t \<longleftrightarrow> t AND 0x40 \<noteq> 0"




section \<open>The core behind the header\<close>

text \<open>The header declares the constants and the data of the core but not its code. The two
  pieces of behaviour below are written from the comments of the header and from the
  specification of the core, over the types of the header.\<close>

subsection \<open>Clipping of the physical MTU\<close>

text \<open>Modelled from the spec: the clipping of a physical UDP MTU, whose code is not in the
  header. The header documents \<open>ZT_MIN_UDP_MTU\<close> as "Minimum allowed physical UDP MTU
  (smaller values are clipped to this)", the spec says "minimum physical MTU is clipped to
  1400". An MTU is an \<open>unsigned int\<close>.\<close>

definition clip_udp_mtu :: "nat \<Rightarrow> nat" where
  "clip_udp_mtu mtu = (if mtu < ZT_MIN_UDP_MTU then ZT_MIN_UDP_MTU else mtu)"

subsection \<open>The rules engine\<close>




















section \<open>Properties\<close>

subsection \<open>Constants\<close>

text \<open>
  C9. The default UDP port is 9993, the minimum physical UDP MTU is 1400 and the default
  physical UDP payload size, not counting IP and UDP overhead, is 1432. A physical MTU
  below the minimum is clipped up to 1400 and one from 1400 upwards is left as it is, so
  a clipped MTU is never below 1400 and the default is not clipped. The default lies
  between the minimum and the largest physical payload, and the port fits the 16 bits of
  a UDP port.
\<close>

theorem wire_constants:
  "ZT_DEFAULT_PORT = 9993 \<and> ZT_MIN_UDP_MTU = 1400 \<and> ZT_DEFAULT_UDP_MTU = 1432
   \<and> (mtu < 1400 \<longrightarrow> clip_udp_mtu mtu = 1400)
   \<and> (1400 \<le> mtu \<longrightarrow> clip_udp_mtu mtu = mtu)
   \<and> 1400 \<le> clip_udp_mtu mtu
   \<and> clip_udp_mtu ZT_DEFAULT_UDP_MTU = 1432
   \<and> ZT_MIN_UDP_MTU \<le> ZT_DEFAULT_UDP_MTU \<and> ZT_DEFAULT_UDP_MTU \<le> ZT_MAX_UDP_PHYSPAYLOAD
   \<and> ZT_DEFAULT_PORT < 2 ^ 16"
  by (simp add: ZT_DEFAULT_PORT_def ZT_MIN_UDP_MTU_def ZT_DEFAULT_UDP_MTU_def
      ZT_MAX_UDP_PHYSPAYLOAD_def clip_udp_mtu_def)

theorem wire_constants_witness:
  "(1200 :: nat) < 1400 \<and> clip_udp_mtu 1200 = 1400
   \<and> (1400 :: nat) \<le> 9000 \<and> clip_udp_mtu 9000 = 9000"
proof -
  have lo: "(1200 :: nat) < 1400" and hi: "(1400 :: nat) \<le> 9000" by simp_all
  show ?thesis
    using lo hi wire_constants [of 1200] wire_constants [of 9000] by simp
qed

subsection \<open>Result codes\<close>

lemma isFatal_sint: "ZT_ResultCode_isFatal x \<longleftrightarrow> 100 \<le> sint x \<and> sint x < 1000"
  by (simp add: ZT_ResultCode_isFatal_def word_sle_eq word_sless_alt)

lemma isFatal_enum:
  "ZT_ResultCode_isFatal (ZT_ResultCode_value r) \<longleftrightarrow>
     r \<in> {ZT_RESULT_FATAL_ERROR_OUT_OF_MEMORY, ZT_RESULT_FATAL_ERROR_DATA_STORE_FAILED,
          ZT_RESULT_FATAL_ERROR_INTERNAL}"
  by (cases r) (simp_all add: isFatal_sint)

text \<open>
  C8. \<open>ZT_ResultCode_isFatal(x)\<close> holds exactly when \<open>100 \<le> x < 1000\<close>, reading \<open>x\<close> as
  a signed \<open>int\<close>. So OK (0) is not fatal, no code from 1000 upwards is fatal,
  out-of-memory (100), data-store-failed (101) and internal (102) are fatal, and among the
  enumerators of \<open>ZT_ResultCode\<close> these three are the only fatal ones.
\<close>

theorem ZT_ResultCode_isFatal_range:
  "(ZT_ResultCode_isFatal x \<longleftrightarrow> 100 \<le> sint x \<and> sint x < 1000)
   \<and> \<not> ZT_ResultCode_isFatal (ZT_ResultCode_value ZT_RESULT_OK)
   \<and> (1000 \<le> sint x \<longrightarrow> \<not> ZT_ResultCode_isFatal x)
   \<and> ZT_ResultCode_value ZT_RESULT_FATAL_ERROR_OUT_OF_MEMORY = 100
   \<and> ZT_ResultCode_value ZT_RESULT_FATAL_ERROR_DATA_STORE_FAILED = 101
   \<and> ZT_ResultCode_value ZT_RESULT_FATAL_ERROR_INTERNAL = 102
   \<and> (ZT_ResultCode_isFatal (ZT_ResultCode_value r) \<longleftrightarrow>
        r \<in> {ZT_RESULT_FATAL_ERROR_OUT_OF_MEMORY, ZT_RESULT_FATAL_ERROR_DATA_STORE_FAILED,
             ZT_RESULT_FATAL_ERROR_INTERNAL})"
proof -
  have "1000 \<le> sint x \<longrightarrow> \<not> ZT_ResultCode_isFatal x"
    by (simp add: isFatal_sint)
  moreover have "\<not> ZT_ResultCode_isFatal (ZT_ResultCode_value ZT_RESULT_OK)"
    by (simp add: isFatal_sint)
  ultimately show ?thesis
    using isFatal_sint [of x] isFatal_enum [of r] by simp
qed

theorem ZT_ResultCode_isFatal_range_witness:
  "1000 \<le> sint (ZT_ResultCode_value ZT_RESULT_ERROR_INTERNAL)
   \<and> \<not> ZT_ResultCode_isFatal (ZT_ResultCode_value ZT_RESULT_ERROR_INTERNAL)
   \<and> ZT_ResultCode_isFatal (ZT_ResultCode_value ZT_RESULT_FATAL_ERROR_DATA_STORE_FAILED)"
proof -
  have h: "1000 \<le> sint (ZT_ResultCode_value ZT_RESULT_ERROR_INTERNAL)" by simp
  show ?thesis
    using h ZT_ResultCode_isFatal_range
      [of "ZT_ResultCode_value ZT_RESULT_ERROR_INTERNAL" ZT_RESULT_FATAL_ERROR_DATA_STORE_FAILED]
    by simp
qed

subsection \<open>The tag byte of a rules table entry\<close>

lemma mask_0x3f: "(0x3f :: 8 word) = mask 6"
  by (simp add: mask_eq_exp_minus_1)

lemma bit_0x80: "(0x80 :: 8 word) = 2 ^ 7"
  by simp

lemma bit_0x40: "(0x40 :: 8 word) = 2 ^ 6"
  by simp

lemma ZT_rule_type_take_bit: "ZT_rule_type t = take_bit 6 t"
  by (simp add: ZT_rule_type_def mask_0x3f take_bit_eq_mask)

lemma ZT_rule_NOT_bit: "ZT_rule_NOT t \<longleftrightarrow> bit t 7"
  unfolding ZT_rule_NOT_def using and_exp_eq_0_iff_not_bit [of t 7] by simp

lemma ZT_rule_OR_bit: "ZT_rule_OR t \<longleftrightarrow> bit t 6"
  unfolding ZT_rule_OR_def using and_exp_eq_0_iff_not_bit [of t 6] by simp

lemma ZT_rule_type_le: "unat (ZT_rule_type t) \<le> 63"
proof -
  have "unat (ZT_rule_type t) = take_bit 6 (unat t)"
    by (simp add: ZT_rule_type_take_bit unsigned_take_bit_eq)
  moreover have "take_bit 6 (unat t) < 2 ^ 6"
    by (rule take_bit_nat_less_exp)
  ultimately show ?thesis by simp
qed

lemma ZT_rule_t_split: "t = ZT_rule_type t OR (t AND 0x80) OR (t AND 0x40)"
proof (rule bit_word_eqI)
  fix n assume "n < LENGTH(8)"
  then have "n < 6 \<or> n = 6 \<or> n = 7" by auto
  then show "bit t n = bit (ZT_rule_type t OR (t AND 0x80) OR (t AND 0x40)) n"
    unfolding ZT_rule_type_def mask_0x3f bit_0x80 bit_0x40
    by (auto simp: bit_simps)
qed

lemma rule_type_value_kind:
  "(ZT_VirtualNetworkRuleType_kind ty = ACTION \<longleftrightarrow> ZT_VirtualNetworkRuleType_value ty \<le> 15)
   \<and> (ZT_VirtualNetworkRuleType_kind ty = MATCH \<longleftrightarrow>
        16 \<le> ZT_VirtualNetworkRuleType_value ty \<and> ZT_VirtualNetworkRuleType_value ty \<le> 63)"
  by (cases ty) simp_all

lemma rule_type_value_in_t:
  "ZT_rule_type (of_nat (ZT_VirtualNetworkRuleType_value ty)) =
     of_nat (ZT_VirtualNetworkRuleType_value ty)
   \<and> unat (of_nat (ZT_VirtualNetworkRuleType_value ty) :: 8 word) =
       ZT_VirtualNetworkRuleType_value ty"
  by (cases ty) (simp_all add: ZT_rule_type_def)

text \<open>
  C1. In the tag byte \<open>t\<close> of a rules table entry the type is the low 6 bits (mask
  \<open>0x3f\<close>, so a value from 0 to 63), bit 7 (\<open>0x80\<close>) is NOT and bit 6 (\<open>0x40\<close>) is OR, and
  the byte is exactly these three fields. Every enumerator the header names an ACTION has
  a value from 0 to 15 and every one it names a MATCH a value from 16 to 63 (and
  conversely), and each value is stored in the type field unchanged.
\<close>

theorem rule_tag_layout:
  "ZT_rule_type t = take_bit 6 t \<and> unat (ZT_rule_type t) \<le> 63
   \<and> (ZT_rule_NOT t \<longleftrightarrow> bit t 7) \<and> (ZT_rule_OR t \<longleftrightarrow> bit t 6)
   \<and> t = ZT_rule_type t OR (t AND 0x80) OR (t AND 0x40)
   \<and> (ZT_VirtualNetworkRuleType_kind ty = ACTION \<longleftrightarrow> ZT_VirtualNetworkRuleType_value ty \<le> 15)
   \<and> (ZT_VirtualNetworkRuleType_kind ty = MATCH \<longleftrightarrow>
        16 \<le> ZT_VirtualNetworkRuleType_value ty \<and> ZT_VirtualNetworkRuleType_value ty \<le> 63)
   \<and> ZT_rule_type (of_nat (ZT_VirtualNetworkRuleType_value ty)) =
        of_nat (ZT_VirtualNetworkRuleType_value ty)
   \<and> unat (of_nat (ZT_VirtualNetworkRuleType_value ty) :: 8 word) =
        ZT_VirtualNetworkRuleType_value ty"
  using ZT_rule_type_take_bit [of t] ZT_rule_type_le [of t] ZT_rule_NOT_bit [of t]
    ZT_rule_OR_bit [of t] ZT_rule_t_split [of t] rule_type_value_kind [of ty]
    rule_type_value_in_t [of ty]
  by blast

subsection \<open>The rules engine\<close>
























end
